theory Spec2Isabelle
  imports Complex_Main "HOL-Library.Multiset"
begin

text \<open>
  A shallow embedding of the workflow engine of the job-order tracking backend: the
  entity store, the fan-out generator that runs when a job order is created, the
  technician's start and end actions, the quality, tester and supervisor decisions with
  their serializers and permission classes, the notifier and the technician metrics.
  A request is a function of the store, the authenticated user (\<open>None\<close> for an
  anonymous request), its arguments and one reading of the clock; it returns its
  response, an error or a value, together with the store it leaves behind.
\<close>

section \<open>Python primitives used by the backend\<close>

text \<open>
  \<open>str(n)\<close> for a non-negative integer: its decimal digits, most significant first.
\<close>

definition digit_char :: "nat \<Rightarrow> char" where
  "digit_char d = ''0123456789'' ! d"

function str_nat :: "nat \<Rightarrow> string" where
  "str_nat n = (if n < 10 then [digit_char n] else str_nat (n div 10) @ [digit_char (n mod 10)])"
  by pat_completeness auto
termination
  by (relation "measure id") auto

declare str_nat.simps [simp del]

text \<open>
  The format specification \<open>{i:04d}\<close> of an f-string, for a non-negative integer:
  the decimal digits, padded with zeros on the left to a width of at least four.
\<close>

definition format_04d :: "nat \<Rightarrow> string" where
  "format_04d n = replicate (4 - length (str_nat n)) (CHR ''0'') @ str_nat n"

section \<open>Entities (core/models.py)\<close>

text \<open>
  Every model is a record of its columns; a nullable foreign key or column is an
  \<open>option\<close>. Character columns stay strings, because the database accepts any string
  there (the \<open>choices\<close> are checked by serializers only). Timestamps are microseconds
  since the epoch. The bookkeeping columns \<open>created_at\<close>, \<open>updated_at\<close> and
  \<open>last_updated\<close>, which Django maintains by itself, are kept only where the code reads
  them (the creation time of an inspection).
\<close>

record process =
  proc_id :: nat
  proc_job :: nat
  proc_operation_name :: string
  proc_standard_time_seconds :: int
  proc_task_type :: string
  proc_order :: nat

record user =
  user_id :: nat
  username :: string
  full_name :: string
  role :: string
  is_active :: bool
  is_superuser :: bool

record job_order =
  jo_id :: nat
  jo_job :: "nat option"
  order_code :: string
  total_devices :: int
  jo_status :: string

record device =
  dev_id :: nat
  dev_job_order :: nat
  serial_number :: string
  current_status :: string

record task =
  task_id :: nat
  task_process :: "nat option"
  task_device :: nat
  task_job_order :: nat
  technician :: "nat option"
  operation_name :: string
  standard_time_seconds :: int
  task_type :: string
  start_time :: "int option"
  end_time :: "int option"
  actual_time_seconds :: "int option"
  status :: string
  task_notes :: string

record inspection =
  insp_id :: nat
  insp_device :: nat
  insp_task :: nat
  inspector :: "nat option"
  insp_decision :: string
  insp_comments :: string
  insp_created_at :: int

record supervisor_review =
  sr_id :: nat
  sr_inspection :: nat
  supervisor :: "nat option"
  sr_decision :: string
  sr_comments :: string

record tester_review =
  tr_id :: nat
  tr_task :: nat
  tester :: "nat option"
  tr_decision :: string
  tr_comments :: string

datatype json = JInt nat | JStr string

record notification =
  notif_user :: nat
  notif_type :: string
  notif_message :: string
  notif_payload :: "(string \<times> json) list"
  notif_read :: bool

text \<open>
  The entity store: one list of rows per table, in insertion order, and the sequences
  that number new rows.
\<close>

record store =
  users :: "user list"
  processes :: "process list"
  job_orders :: "job_order list"
  devices :: "device list"
  tasks :: "task list"
  inspections :: "inspection list"
  supervisor_reviews :: "supervisor_review list"
  tester_reviews :: "tester_review list"
  notifications :: "notification list"
  next_device_id :: nat
  next_task_id :: nat
  next_inspection_id :: nat
  next_supervisor_review_id :: nat
  next_tester_review_id :: nat

section \<open>Fan-out generator (core/signals.py)\<close>

text \<open>
  \<open>Process.objects.filter(job=instance.job).order_by('order')\<close>.
\<close>

definition processes_of_job :: "store \<Rightarrow> nat \<Rightarrow> process list" where
  "processes_of_job st j = sort_key proc_order (filter (\<lambda>p. proc_job p = j) (processes st))"

text \<open>
  \<open>Device(job_order=instance, serial_number=serial_number)\<close>: an unsaved row, whose
  primary key (written 0 here) is assigned by \<open>bulk_create\<close>; the status takes the
  column default \<open>'pending'\<close>.
\<close>

definition Device :: "job_order \<Rightarrow> string \<Rightarrow> device" where
  "Device instance serial =
     \<lparr>dev_id = 0, dev_job_order = jo_id instance, serial_number = serial,
      current_status = ''pending''\<rparr>"

definition Task :: "job_order \<Rightarrow> device \<Rightarrow> process \<Rightarrow> task" where
  "Task instance dev proc =
     \<lparr>task_id = 0, task_process = Some (proc_id proc), task_device = dev_id dev,
      task_job_order = jo_id instance, technician = None,
      operation_name = proc_operation_name proc,
      standard_time_seconds = proc_standard_time_seconds proc,
      task_type = proc_task_type proc,
      start_time = None, end_time = None, actual_time_seconds = None,
      status = ''available'', task_notes = ''''\<rparr>"

text \<open>
  \<open>bulk_create\<close> inserts the rows in order, numbering them from the table's sequence,
  and returns the saved rows.
\<close>

definition bulk_create_devices :: "store \<Rightarrow> device list \<Rightarrow> device list \<times> store" where
  "bulk_create_devices st ds =
     (let created = map (\<lambda>(k, d). d\<lparr>dev_id := k\<rparr>) (enumerate (next_device_id st) ds)
      in (created, st\<lparr>devices := devices st @ created,
                       next_device_id := next_device_id st + length ds\<rparr>))"

definition bulk_create_tasks :: "store \<Rightarrow> task list \<Rightarrow> task list \<times> store" where
  "bulk_create_tasks st ts =
     (let created = map (\<lambda>(k, t). t\<lparr>task_id := k\<rparr>) (enumerate (next_task_id st) ts)
      in (created, st\<lparr>tasks := tasks st @ created,
                       next_task_id := next_task_id st + length ts\<rparr>))"

text \<open>
  The \<open>for i in range(instance.total_devices)\<close> loop: \<open>range\<close> of a number below one
  is empty.
\<close>

definition devices_to_create :: "job_order \<Rightarrow> device list" where
  "devices_to_create instance =
     map (\<lambda>i. Device instance (order_code instance @ ''-'' @ format_04d (i + 1)))
       [0 ..< nat (total_devices instance)]"

definition tasks_to_create :: "job_order \<Rightarrow> device list \<Rightarrow> process list \<Rightarrow> task list" where
  "tasks_to_create instance created_devices procs =
     concat (map (\<lambda>dev. map (\<lambda>proc. Task instance dev proc) procs) created_devices)"

text \<open>
  The \<open>post_save\<close> handler of \<open>JobOrder\<close>. A model instance is always truthy, so
  \<open>instance.job\<close> is false exactly when the foreign key is null.
\<close>

definition create_devices_and_tasks_for_job_order :: "store \<Rightarrow> job_order \<Rightarrow> bool \<Rightarrow> store" where
  "create_devices_and_tasks_for_job_order st instance created =
     (case jo_job instance of
        None \<Rightarrow> st
      | Some j \<Rightarrow>
          if \<not> created then st
          else let procs = processes_of_job st j in
            if procs = [] then st
            else let (created_devices, st1) = bulk_create_devices st (devices_to_create instance)
                 in snd (bulk_create_tasks st1 (tasks_to_create instance created_devices procs)))"

section \<open>Python numbers\<close>

text \<open>
  \<open>int(x)\<close> of a number truncates toward zero.
\<close>

definition py_int :: "rat \<Rightarrow> int" where
  "py_int x = (if 0 \<le> x then \<lfloor>x\<rfloor> else \<lceil>x\<rceil>)"

text \<open>
  \<open>timedelta.total_seconds()\<close> of a difference of \<open>us\<close> microseconds. The result is a
  float; it is exact to the microsecond for every interval shorter than 270 years
  (Python's documentation of the method), so the model keeps the exact quotient.
\<close>

definition total_seconds :: "int \<Rightarrow> rat" where
  "total_seconds us = of_int us / 1000000"












section \<open>Derived efficiency (Task.calculate_efficiency, TaskSerializer.get_efficiency)\<close>



section \<open>Technician daily metrics (core/metrics/calculations.py)\<close>








section \<open>Store access\<close>

text \<open>
  A lookup by primary key, and the SQL \<open>UPDATE ... WHERE id = pk\<close> behind
  \<open>save(update_fields=...)\<close>, which writes the named columns of that row only.
\<close>

definition get_user :: "store \<Rightarrow> nat \<Rightarrow> user option" where
  "get_user st pk = find (\<lambda>u. user_id u = pk) (users st)"

definition get_job_order :: "store \<Rightarrow> nat \<Rightarrow> job_order option" where
  "get_job_order st pk = find (\<lambda>j. jo_id j = pk) (job_orders st)"

definition get_device :: "store \<Rightarrow> nat \<Rightarrow> device option" where
  "get_device st pk = find (\<lambda>d. dev_id d = pk) (devices st)"

definition get_task :: "store \<Rightarrow> nat \<Rightarrow> task option" where
  "get_task st pk = find (\<lambda>t. task_id t = pk) (tasks st)"

definition get_inspection :: "store \<Rightarrow> nat \<Rightarrow> inspection option" where
  "get_inspection st pk = find (\<lambda>i. insp_id i = pk) (inspections st)"

definition update_task :: "store \<Rightarrow> nat \<Rightarrow> (task \<Rightarrow> task) \<Rightarrow> store" where
  "update_task st pk f = st\<lparr>tasks := map (\<lambda>r. if task_id r = pk then f r else r) (tasks st)\<rparr>"

definition update_device :: "store \<Rightarrow> nat \<Rightarrow> (device \<Rightarrow> device) \<Rightarrow> store" where
  "update_device st pk f =
     st\<lparr>devices := map (\<lambda>r. if dev_id r = pk then f r else r) (devices st)\<rparr>"

definition update_inspection :: "store \<Rightarrow> nat \<Rightarrow> (inspection \<Rightarrow> inspection) \<Rightarrow> store" where
  "update_inspection st pk f =
     st\<lparr>inspections := map (\<lambda>r. if insp_id r = pk then f r else r) (inspections st)\<rparr>"

text \<open>
  \<open>Inspection.objects.create(...)\<close> and the \<open>save()\<close> of a new review: the row gets the
  next number of its sequence and is appended.
\<close>

definition create_inspection :: "store \<Rightarrow> inspection \<Rightarrow> inspection \<times> store" where
  "create_inspection st row =
     (let saved = row\<lparr>insp_id := next_inspection_id st\<rparr>
      in (saved, st\<lparr>inspections := inspections st @ [saved],
                     next_inspection_id := Suc (next_inspection_id st)\<rparr>))"

definition create_supervisor_review ::
    "store \<Rightarrow> supervisor_review \<Rightarrow> supervisor_review \<times> store" where
  "create_supervisor_review st row =
     (let saved = row\<lparr>sr_id := next_supervisor_review_id st\<rparr>
      in (saved, st\<lparr>supervisor_reviews := supervisor_reviews st @ [saved],
                     next_supervisor_review_id := Suc (next_supervisor_review_id st)\<rparr>))"

definition create_tester_review :: "store \<Rightarrow> tester_review \<Rightarrow> tester_review \<times> store" where
  "create_tester_review st row =
     (let saved = row\<lparr>tr_id := next_tester_review_id st\<rparr>
      in (saved, st\<lparr>tester_reviews := tester_reviews st @ [saved],
                     next_tester_review_id := Suc (next_tester_review_id st)\<rparr>))"

text \<open>
  \<open>task.technician\<close>: the user row behind the nullable foreign key.
\<close>

definition task_technician :: "store \<Rightarrow> task \<Rightarrow> user option" where
  "task_technician st t = (case technician t of None \<Rightarrow> None | Some pk \<Rightarrow> get_user st pk)"

text \<open>
  \<open>get_status_display()\<close>: the label of the status in \<open>Task.STATUS_CHOICES\<close>, or the raw
  value when it is not one of the choices.
\<close>

definition STATUS_CHOICES :: "(string \<times> string) list" where
  "STATUS_CHOICES =
     [(''available'', ''Available''),
      (''in_progress'', ''In Progress''),
      (''done'', ''Done''),
      (''pending_qa'', ''Pending QA''),
      (''qa_approved'', ''QA Approved''),
      (''pending_tester'', ''Pending Tester''),
      (''tester_approved'', ''Tester Approved''),
      (''pending_supervisor'', ''Pending Supervisor''),
      (''supervisor_approved'', ''Supervisor Approved''),
      (''rejected'', ''Rejected''),
      (''completed'', ''Completed'')]"

definition get_status_display :: "task \<Rightarrow> string" where
  "get_status_display t = (case map_of STATUS_CHOICES (status t) of Some l \<Rightarrow> l | None \<Rightarrow> status t)"

section \<open>Notifier (core/notifications/utils.py)\<close>

definition create_notification ::
    "store \<Rightarrow> nat \<Rightarrow> string \<Rightarrow> string \<Rightarrow> (string \<times> json) list \<Rightarrow> store" where
  "create_notification st uid ntype msg payload =
     st\<lparr>notifications := notifications st @
          [\<lparr>notif_user = uid, notif_type = ntype, notif_message = msg,
            notif_payload = payload, notif_read = False\<rparr>]\<rparr>"

text \<open>
  \<open>User.objects.filter(role=r, is_active=True)\<close>, and a loop that notifies each of them.
\<close>

definition active_users_with_role :: "store \<Rightarrow> string \<Rightarrow> user list" where
  "active_users_with_role st r = filter (\<lambda>u. role u = r \<and> is_active u) (users st)"

definition notify_all ::
    "store \<Rightarrow> user list \<Rightarrow> string \<Rightarrow> string \<Rightarrow> (string \<times> json) list \<Rightarrow> store" where
  "notify_all st us ntype msg payload =
     foldl (\<lambda>s u. create_notification s (user_id u) ntype msg payload) st us"

section \<open>Permissions (core/permissions.py) and errors\<close>

text \<open>
  What a request can fail with: the two answers of a refused permission check, the 404 of
  \<open>get_object\<close>, an error response built by the view (status code and detail), a
  validation error of a serializer (field and message), and the exception of a
  dereferenced foreign key without its row.
\<close>

datatype error =
    NotAuthenticated
  | PermissionDenied
  | Http404
  | ErrorResponse nat string
  | ValidationError "(string \<times> string) list"
  | DoesNotExist

text \<open>
  \<open>IsRoleRequired.has_permission\<close>; \<open>request.user\<close> is \<open>None\<close> for an anonymous request.
\<close>

definition has_permission :: "string list \<Rightarrow> user option \<Rightarrow> bool" where
  "has_permission allowed_roles request_user =
     (case request_user of
        None \<Rightarrow> False
      | Some u \<Rightarrow>
          if is_superuser u then True
          else if allowed_roles = [] then True
          else if role u = [] then False
          else role u \<in> set allowed_roles)"

definition IsTechnicianOrAll :: "string list" where
  "IsTechnicianOrAll =
     [''technician'', ''tester'', ''admin'', ''planning'', ''supervisor'', ''quality'']"

definition IsQualityOrTesterOrAdmin :: "string list" where
  "IsQualityOrTesterOrAdmin = [''quality'', ''tester'', ''admin'']"

definition IsSupervisorOrAdmin :: "string list" where
  "IsSupervisorOrAdmin = [''supervisor'', ''admin'']"

definition IsTesterOrAdmin :: "string list" where
  "IsTesterOrAdmin = [''tester'', ''admin'']"

text \<open>
  The permission classes \<open>[IsAuthenticated, <role class>]\<close> of a view, checked in this
  order before the view runs; the result is the authenticated user.
\<close>

definition check_permissions :: "string list \<Rightarrow> user option \<Rightarrow> error + user" where
  "check_permissions allowed_roles request_user =
     (case request_user of
        None \<Rightarrow> Inl NotAuthenticated
      | Some u \<Rightarrow> if has_permission allowed_roles request_user then Inr u
                  else Inl PermissionDenied)"

section \<open>Technician task view set (core/views.py)\<close>

text \<open>
  \<open>get_queryset\<close>: the role filter, on tasks joined with their device and job order
  (\<open>select_related\<close> joins the two mandatory foreign keys).
\<close>

definition role_filter :: "user \<Rightarrow> task \<Rightarrow> bool" where
  "role_filter u t =
     (if role u = ''technician'' then
        (status t = ''available'' \<and> task_type t = ''technician'') \<or>
        (technician t = Some (user_id u) \<and> status t \<in> set [''in_progress'', ''rejected''])
      else if role u = ''quality'' then status t = ''pending_qa''
      else if role u = ''supervisor'' then
        status t \<in> set [''tester_approved'', ''pending_supervisor'']
      else if role u = ''tester'' then status t = ''pending_tester''
      else if role u \<in> set [''planning'', ''admin''] then True
      else False)"

definition select_related :: "store \<Rightarrow> task \<Rightarrow> (task \<times> device \<times> job_order) option" where
  "select_related st t =
     (case get_device st (task_device t) of
        None \<Rightarrow> None
      | Some d \<Rightarrow>
          (case get_job_order st (task_job_order t) of
             None \<Rightarrow> None
           | Some jo \<Rightarrow> Some (t, d, jo)))"

definition get_queryset :: "store \<Rightarrow> user \<Rightarrow> (task \<times> device \<times> job_order) list" where
  "get_queryset st u = List.map_filter (select_related st) (filter (role_filter u) (tasks st))"

text \<open>
  \<open>get_object\<close> of the framework: the row of the queryset with this primary key, or 404.
\<close>

definition get_object :: "store \<Rightarrow> user \<Rightarrow> nat \<Rightarrow> (task \<times> device \<times> job_order) option" where
  "get_object st u pk = find (\<lambda>row. task_id (fst row) = pk) (get_queryset st u)"

text \<open>
  The \<open>start\<close> action. It returns the response (the task on success) and the store.
\<close>

definition start :: "store \<Rightarrow> user option \<Rightarrow> nat \<Rightarrow> int \<Rightarrow> (error + task) \<times> store" where
  "start st request_user pk now =
     (case check_permissions IsTechnicianOrAll request_user of
        Inl e \<Rightarrow> (Inl e, st)
      | Inr u \<Rightarrow>
          (case get_object st u pk of
             None \<Rightarrow> (Inl Http404, st)
           | Some (t, dev, jo) \<Rightarrow>
               if status t \<noteq> ''available'' then
                 (Inl (ErrorResponse 400
                    (''Task cannot be started. Current status: '' @ get_status_display t @ ''.'')),
                  st)
               else
                 let t' = t\<lparr>technician := Some (user_id u), start_time := Some now,
                            status := ''in_progress''\<rparr>;
                     st1 = update_task st (task_id t)
                             (\<lambda>r. r\<lparr>technician := technician t', start_time := start_time t',
                                    status := status t'\<rparr>);
                     st2 = update_device st1 (dev_id dev)
                             (\<lambda>r. r\<lparr>current_status := ''in_progress''\<rparr>)
                 in (Inr t', st2)))"

text \<open>
  The \<open>end\<close> action. \<open>task.technician != user\<close> compares primary keys; the block under
  \<open>transaction.atomic()\<close> has no failing step in this model.
\<close>

definition end_task :: "store \<Rightarrow> user option \<Rightarrow> nat \<Rightarrow> int \<Rightarrow> (error + task) \<times> store" where
  "end_task st request_user pk now =
     (case check_permissions IsTechnicianOrAll request_user of
        Inl e \<Rightarrow> (Inl e, st)
      | Inr u \<Rightarrow>
          (case get_object st u pk of
             None \<Rightarrow> (Inl Http404, st)
           | Some (t, dev, jo) \<Rightarrow>
               if status t \<noteq> ''in_progress'' then
                 (Inl (ErrorResponse 400
                    (''Task cannot be ended. Current status: '' @ get_status_display t @ ''.'')),
                  st)
               else
                 (case task_technician st t of
                    None \<Rightarrow>
                      (Inl (ErrorResponse 403
                         ''You are not the assigned technician for this task.''), st)
                  | Some tech \<Rightarrow>
                      if user_id tech \<noteq> user_id u then
                        (Inl (ErrorResponse 403
                           ''You are not the assigned technician for this task.''), st)
                      else
                        (case start_time t of
                           None \<Rightarrow>
                             (Inl (ErrorResponse 400
                                ''Task start time is missing. Cannot calculate duration.''), st)
                         | Some started \<Rightarrow>
                             let time_difference = now - started;
                                 t' = t\<lparr>end_time := Some now,
                                        actual_time_seconds :=
                                          Some (py_int (total_seconds time_difference)),
                                        status := ''pending_qa''\<rparr>;
                                 st1 = update_task st (task_id t)
                                         (\<lambda>r. r\<lparr>end_time := end_time t',
                                                actual_time_seconds := actual_time_seconds t',
                                                status := status t'\<rparr>);
                                 st2 = update_device st1 (dev_id dev)
                                         (\<lambda>r. r\<lparr>current_status := ''completed''\<rparr>);
                                 (insp, st3) = create_inspection st2
                                         \<lparr>insp_id = 0, insp_device = dev_id dev,
                                          insp_task = task_id t, inspector = None,
                                          insp_decision = ''pending'',
                                          insp_comments = ''Awaiting quality inspection'',
                                          insp_created_at = now\<rparr>;
                                 st4 = notify_all st3 (active_users_with_role st3 ''quality'')
                                         ''task_ready_for_inspection''
                                         (''Task #'' @ str_nat (task_id t) @ '' on device '' @
                                          serial_number dev @ '' is ready for quality inspection.'')
                                         [(''task_id'', JInt (task_id t)),
                                          (''job_order_code'', JStr (order_code jo)),
                                          (''device_serial'', JStr (serial_number dev)),
                                          (''inspection_id'', JInt (insp_id insp))];
                                 st5 = notify_all st4 (active_users_with_role st4 ''tester'')
                                         ''task_ready_for_testing''
                                         (''Task #'' @ str_nat (task_id t) @ '' on device '' @
                                          serial_number dev @
                                          '' is ready for testing verification.'')
                                         [(''task_id'', JInt (task_id t)),
                                          (''job_order_code'', JStr (order_code jo)),
                                          (''device_serial'', JStr (serial_number dev)),
                                          (''inspection_id'', JInt (insp_id insp))];
                                 st6 = notify_all st5 (active_users_with_role st5 ''supervisor'')
                                         ''task_completed''
                                         (''Task #'' @ str_nat (task_id t) @ '' completed by '' @
                                          full_name tech @ ''. Device: '' @ serial_number dev)
                                         [(''task_id'', JInt (task_id t)),
                                          (''job_order_code'', JStr (order_code jo)),
                                          (''technician_id'', JInt (user_id tech)),
                                          (''inspection_id'', JInt (insp_id insp))]
                             in (Inr t', st6)))))"

section \<open>Decision serializers (core/serializers.py)\<close>

text \<open>
  The parsed body of a decision request: the primary key it names (\<open>task_id\<close> for an
  inspection or a tester review, \<open>inspection_id\<close> for a supervisor review), the
  decision, and the comments when the key is present.
\<close>

record request_data =
  data_id :: nat
  data_decision :: string
  data_comments :: "string option"

definition invalid_pk :: "nat \<Rightarrow> string" where
  "invalid_pk pk = ''Invalid pk '' @ [CHR 0x22] @ str_nat pk @ [CHR 0x22] @ '' - object does not exist.''"

definition invalid_choice :: "string \<Rightarrow> string" where
  "invalid_choice v = [CHR 0x22] @ v @ [CHR 0x22] @ '' is not a valid choice.''"

text \<open>
  The field checks that run before \<open>validate\<close>: the primary key must name a row, the
  decision must be one of the model's choices.
\<close>

definition field_errors :: "string \<Rightarrow> bool \<Rightarrow> string list \<Rightarrow> request_data \<Rightarrow> (string \<times> string) list" where
  "field_errors key found choices data =
     (if found then [] else [(key, invalid_pk (data_id data))]) @
     (if data_decision data \<in> set choices then []
      else [(''decision'', invalid_choice (data_decision data))])"

text \<open>
  \<open>not data.get('comments')\<close>: the key is absent or the string is empty.
\<close>

definition no_comments :: "request_data \<Rightarrow> bool" where
  "no_comments data = (case data_comments data of None \<Rightarrow> True | Some c \<Rightarrow> c = [])"

text \<open>
  \<open>validated_data.get('comments', '')\<close>.
\<close>

definition comments_or_empty :: "request_data \<Rightarrow> string" where
  "comments_or_empty data = (case data_comments data of None \<Rightarrow> [] | Some c \<Rightarrow> c)"

definition InspectionSerializer_validate :: "task \<Rightarrow> request_data \<Rightarrow> error + task" where
  "InspectionSerializer_validate t data =
     (if data_decision data = ''rejected'' \<and> no_comments data then
        Inl (ValidationError
          [(''comments'', ''Comments are mandatory when rejecting an inspection.'')])
      else if status t \<noteq> ''pending_qa'' then
        Inl (ValidationError
          [(''task_id'', ''Task is not ready for QA inspection. Current status: '' @
                         get_status_display t @ ''.'')])
      else Inr t)"

definition InspectionSerializer_is_valid :: "store \<Rightarrow> request_data \<Rightarrow> error + task" where
  "InspectionSerializer_is_valid st data =
     (case get_task st (data_id data) of
        None \<Rightarrow>
          Inl (ValidationError (field_errors ''task_id'' False [''pending'', ''accepted'', ''rejected''] data))
      | Some t \<Rightarrow>
          let errs = field_errors ''task_id'' True [''pending'', ''accepted'', ''rejected''] data
          in if errs \<noteq> [] then Inl (ValidationError errs) else InspectionSerializer_validate t data)"

definition TesterReviewSerializer_validate :: "task \<Rightarrow> request_data \<Rightarrow> error + task" where
  "TesterReviewSerializer_validate t data =
     (if data_decision data = ''rejected'' \<and> no_comments data then
        Inl (ValidationError
          [(''comments'', ''Comments are mandatory when rejecting a task during testing.'')])
      else if status t \<noteq> ''pending_tester'' then
        Inl (ValidationError
          [(''task_id'', ''Task is not ready for tester review. Current status: '' @
                         get_status_display t @ ''.'')])
      else Inr t)"

definition TesterReviewSerializer_is_valid :: "store \<Rightarrow> request_data \<Rightarrow> error + task" where
  "TesterReviewSerializer_is_valid st data =
     (case get_task st (data_id data) of
        None \<Rightarrow>
          Inl (ValidationError (field_errors ''task_id'' False [''pending'', ''accepted'', ''rejected''] data))
      | Some t \<Rightarrow>
          let errs = field_errors ''task_id'' True [''pending'', ''accepted'', ''rejected''] data
          in if errs \<noteq> [] then Inl (ValidationError errs) else TesterReviewSerializer_validate t data)"

text \<open>
  \<open>SupervisorReviewSerializer\<close> declares no \<open>validate\<close>: only the field checks run.
\<close>

definition SupervisorReviewSerializer_is_valid :: "store \<Rightarrow> request_data \<Rightarrow> error + inspection" where
  "SupervisorReviewSerializer_is_valid st data =
     (case get_inspection st (data_id data) of
        None \<Rightarrow>
          Inl (ValidationError
            (field_errors ''inspection_id'' False [''accepted'', ''rejected''] data))
      | Some i \<Rightarrow>
          let errs = field_errors ''inspection_id'' True [''accepted'', ''rejected''] data
          in if errs \<noteq> [] then Inl (ValidationError errs) else Inr i)"

section \<open>Quality inspection (InspectionViewSet)\<close>

text \<open>
  \<open>Inspection.objects.filter(task=task, decision='pending').order_by('-created_at').first()\<close>.
\<close>

definition pending_inspection :: "store \<Rightarrow> nat \<Rightarrow> inspection option" where
  "pending_inspection st tid =
     (case sort_key (\<lambda>i. - insp_created_at i)
             (filter (\<lambda>i. insp_task i = tid \<and> insp_decision i = ''pending'') (inspections st)) of
        [] \<Rightarrow> None
      | i # _ \<Rightarrow> Some i)"

text \<open>
  \<open>perform_create\<close>. A foreign key always has its row, since the database enforces it;
  where the row is missing the dereference raises and the atomic block writes nothing.
\<close>

definition Inspection_perform_create ::
    "store \<Rightarrow> user \<Rightarrow> task \<Rightarrow> request_data \<Rightarrow> int \<Rightarrow> (error + inspection) \<times> store" where
  "Inspection_perform_create st u t data now =
     (let decision = data_decision data; comments = comments_or_empty data in
      case select_related st t of
        None \<Rightarrow> (Inl DoesNotExist, st)
      | Some (_, dev, jo) \<Rightarrow>
          let (insp, st1) =
                (case pending_inspection st (task_id t) of
                   Some found \<Rightarrow>
                     let upd = found\<lparr>inspector := Some (user_id u), insp_decision := decision,
                                      insp_comments := comments\<rparr>
                     in (upd, update_inspection st (insp_id found)
                                (\<lambda>r. r\<lparr>inspector := inspector upd,
                                       insp_decision := insp_decision upd,
                                       insp_comments := insp_comments upd,
                                       insp_created_at := insp_created_at upd\<rparr>))
                 | None \<Rightarrow>
                     create_inspection st
                       \<lparr>insp_id = 0, insp_device = dev_id dev, insp_task = task_id t,
                        inspector = Some (user_id u), insp_decision = decision,
                        insp_comments = comments, insp_created_at = now\<rparr>)
          in if decision = ''accepted'' then
               let st2 = update_task st1 (task_id t) (\<lambda>r. r\<lparr>status := ''pending_tester''\<rparr>);
                   st3 = notify_all st2 (active_users_with_role st2 ''tester'')
                           ''task_ready_for_testing''
                           (''Task #'' @ str_nat (task_id t) @
                            '' passed QA inspection and is ready for final testing.'')
                           [(''task_id'', JInt (task_id t)),
                            (''job_order_code'', JStr (order_code jo)),
                            (''device_serial'', JStr (serial_number dev))]
               in (Inr insp, st3)
             else if decision = ''rejected'' then
               let st2 = update_task st1 (task_id t) (\<lambda>r. r\<lparr>status := ''rejected''\<rparr>);
                   st3 = update_device st2 (dev_id dev) (\<lambda>r. r\<lparr>current_status := ''rejected''\<rparr>);
                   st4 = (case task_technician st3 t of
                            None \<Rightarrow> st3
                          | Some tech \<Rightarrow>
                              create_notification st3 (user_id tech) ''task_rejected''
                                (''Task #'' @ str_nat (task_id t) @
                                 '' was rejected by QA Inspector: '' @
                                 take 50 (insp_comments insp) @ ''...'')
                                [(''task_id'', JInt (task_id t)),
                                 (''job_order_code'', JStr (order_code jo)),
                                 (''inspection_id'', JInt (insp_id insp))])
               in (Inr insp, st4)
             else (Inr insp, st1))"

text \<open>
  A quality decision is a \<open>POST\<close> to the inspection view set: permission check,
  serializer validation, then \<open>perform_create\<close>.
\<close>

definition qa_decision ::
    "store \<Rightarrow> user option \<Rightarrow> request_data \<Rightarrow> int \<Rightarrow> (error + inspection) \<times> store" where
  "qa_decision st request_user data now =
     (case check_permissions IsQualityOrTesterOrAdmin request_user of
        Inl e \<Rightarrow> (Inl e, st)
      | Inr u \<Rightarrow>
          (case InspectionSerializer_is_valid st data of
             Inl e \<Rightarrow> (Inl e, st)
           | Inr t \<Rightarrow> Inspection_perform_create st u t data now))"

section \<open>Tester review (TesterReviewViewSet)\<close>

definition TesterReview_perform_create ::
    "store \<Rightarrow> user \<Rightarrow> task \<Rightarrow> request_data \<Rightarrow> (error + tester_review) \<times> store" where
  "TesterReview_perform_create st u t data =
     (let decision = data_decision data in
      case select_related st t of
        None \<Rightarrow> (Inl DoesNotExist, st)
      | Some (_, dev, jo) \<Rightarrow>
          let (tester_review, st1) = create_tester_review st
                \<lparr>tr_id = 0, tr_task = task_id t, tester = Some (user_id u),
                 tr_decision = decision, tr_comments = comments_or_empty data\<rparr>
          in if decision = ''accepted'' then
               let st2 = update_task st1 (task_id t) (\<lambda>r. r\<lparr>status := ''pending_supervisor''\<rparr>);
                   st3 = notify_all st2 (active_users_with_role st2 ''supervisor'')
                           ''task_ready_for_supervisor_review''
                           (''Task #'' @ str_nat (task_id t) @
                            '' passed tester inspection and is ready for your final review.'')
                           [(''task_id'', JInt (task_id t)),
                            (''job_order_code'', JStr (order_code jo)),
                            (''device_serial'', JStr (serial_number dev))]
               in (Inr tester_review, st3)
             else if decision = ''rejected'' then
               let st2 = update_task st1 (task_id t) (\<lambda>r. r\<lparr>status := ''rejected''\<rparr>);
                   st3 = update_device st2 (dev_id dev) (\<lambda>r. r\<lparr>current_status := ''rejected''\<rparr>);
                   st4 = (case task_technician st3 t of
                            None \<Rightarrow> st3
                          | Some tech \<Rightarrow>
                              create_notification st3 (user_id tech) ''task_rejected''
                                (''Task #'' @ str_nat (task_id t) @
                                 '' was rejected during tester inspection: '' @
                                 take 50 (tr_comments tester_review) @ ''...'')
                                [(''task_id'', JInt (task_id t)),
                                 (''job_order_code'', JStr (order_code jo))])
               in (Inr tester_review, st4)
             else (Inr tester_review, st1))"

definition tester_decision ::
    "store \<Rightarrow> user option \<Rightarrow> request_data \<Rightarrow> (error + tester_review) \<times> store" where
  "tester_decision st request_user data =
     (case check_permissions IsTesterOrAdmin request_user of
        Inl e \<Rightarrow> (Inl e, st)
      | Inr u \<Rightarrow>
          (case TesterReviewSerializer_is_valid st data of
             Inl e \<Rightarrow> (Inl e, st)
           | Inr t \<Rightarrow> TesterReview_perform_create st u t data))"

section \<open>Supervisor review (SupervisorReviewViewSet)\<close>

text \<open>
  \<open>perform_create\<close>: the task is the one of the reviewed inspection, whatever its status.
\<close>

definition SupervisorReview_perform_create ::
    "store \<Rightarrow> user \<Rightarrow> inspection \<Rightarrow> request_data \<Rightarrow> (error + supervisor_review) \<times> store" where
  "SupervisorReview_perform_create st u insp data =
     (let decision = data_decision data in
      case get_task st (insp_task insp) of
        None \<Rightarrow> (Inl DoesNotExist, st)
      | Some t \<Rightarrow>
          (case select_related st t of
             None \<Rightarrow> (Inl DoesNotExist, st)
           | Some (_, dev, jo) \<Rightarrow>
               let (supervisor_review, st1) = create_supervisor_review st
                     \<lparr>sr_id = 0, sr_inspection = insp_id insp, supervisor = Some (user_id u),
                      sr_decision = decision, sr_comments = comments_or_empty data\<rparr>
               in if decision = ''accepted'' then
                    let st2 = update_task st1 (task_id t)
                                (\<lambda>r. r\<lparr>status := ''supervisor_approved''\<rparr>);
                        st3 = update_device st2 (dev_id dev)
                                (\<lambda>r. r\<lparr>current_status := ''completed''\<rparr>);
                        st4 = (case task_technician st3 t of
                                 None \<Rightarrow> st3
                               | Some tech \<Rightarrow>
                                   create_notification st3 (user_id tech) ''task_completed''
                                     (''Task #'' @ str_nat (task_id t) @
                                      '' completed successfully after supervisor review.'')
                                     [(''task_id'', JInt (task_id t)),
                                      (''job_order_code'', JStr (order_code jo))]);
                        st5 = notify_all st4 (active_users_with_role st4 ''tester'')
                                ''task_completed''
                                (''Task #'' @ str_nat (task_id t) @
                                 '' completed after supervisor review.'')
                                [(''task_id'', JInt (task_id t)),
                                 (''job_order_code'', JStr (order_code jo)),
                                 (''device_serial'', JStr (serial_number dev))]
                    in (Inr supervisor_review, st5)
                  else if decision = ''rejected'' then
                    let st2 = update_task st1 (task_id t) (\<lambda>r. r\<lparr>status := ''rejected''\<rparr>);
                        st3 = update_device st2 (dev_id dev)
                                (\<lambda>r. r\<lparr>current_status := ''rejected''\<rparr>);
                        st4 = (case task_technician st3 t of
                                 None \<Rightarrow> st3
                               | Some tech \<Rightarrow>
                                   create_notification st3 (user_id tech) ''task_rejected''
                                     (''Task #'' @ str_nat (task_id t) @
                                      '' was rejected during supervisor review: '' @
                                      take 50 (sr_comments supervisor_review) @ ''...'')
                                     [(''task_id'', JInt (task_id t)),
                                      (''job_order_code'', JStr (order_code jo))])
                    in (Inr supervisor_review, st4)
                  else (Inr supervisor_review, st1)))"

definition supervisor_decision ::
    "store \<Rightarrow> user option \<Rightarrow> request_data \<Rightarrow> (error + supervisor_review) \<times> store" where
  "supervisor_decision st request_user data =
     (case check_permissions IsSupervisorOrAdmin request_user of
        Inl e \<Rightarrow> (Inl e, st)
      | Inr u \<Rightarrow>
          (case SupervisorReviewSerializer_is_valid st data of
             Inl e \<Rightarrow> (Inl e, st)
           | Inr insp \<Rightarrow> SupervisorReview_perform_create st u insp data))"

section \<open>Rows added by an operation\<close>




section \<open>A small factory floor\<close>

text \<open>
  Two technicians, a quality inspector, a tester, a supervisor, a deactivated inspector
  and a planner; a job with the processes A (600 s) and B (300 s); one job order of one
  device.
\<close>

definition tech_one :: user where
  "tech_one = \<lparr>user_id = 1, username = ''tech'', full_name = ''Tech One'',
                role = ''technician'', is_active = True, is_superuser = False\<rparr>"

definition inspector_one :: user where
  "inspector_one = \<lparr>user_id = 2, username = ''qi'', full_name = ''Quality One'',
                     role = ''quality'', is_active = True, is_superuser = False\<rparr>"

definition tester_one :: user where
  "tester_one = \<lparr>user_id = 3, username = ''tester'', full_name = ''Tester One'',
                  role = ''tester'', is_active = True, is_superuser = False\<rparr>"

definition supervisor_one :: user where
  "supervisor_one = \<lparr>user_id = 4, username = ''boss'', full_name = ''Supervisor One'',
                      role = ''supervisor'', is_active = True, is_superuser = False\<rparr>"

definition tech_two :: user where
  "tech_two = \<lparr>user_id = 5, username = ''tech2'', full_name = ''Tech Two'',
                role = ''technician'', is_active = True, is_superuser = False\<rparr>"

definition inspector_old :: user where
  "inspector_old = \<lparr>user_id = 6, username = ''old_qi'', full_name = ''Quality Old'',
                     role = ''quality'', is_active = False, is_superuser = False\<rparr>"

definition planner_one :: user where
  "planner_one = \<lparr>user_id = 7, username = ''planner'', full_name = ''Planner One'',
                   role = ''planning'', is_active = True, is_superuser = False\<rparr>"

definition floor_users :: "user list" where
  "floor_users =
     [tech_one, inspector_one, tester_one, supervisor_one, tech_two, inspector_old,
      planner_one]"

definition floor_order :: job_order where
  "floor_order =
     \<lparr>jo_id = 1, jo_job = Some 1, order_code = ''JO-001'', total_devices = 1,
      jo_status = ''available''\<rparr>"

definition floor_empty :: store where
  "floor_empty =
     \<lparr>users = floor_users,
      processes =
        [\<lparr>proc_id = 1, proc_job = 1, proc_operation_name = ''A'',
          proc_standard_time_seconds = 600, proc_task_type = ''technician'', proc_order = 1\<rparr>,
         \<lparr>proc_id = 2, proc_job = 1, proc_operation_name = ''B'',
          proc_standard_time_seconds = 300, proc_task_type = ''technician'', proc_order = 2\<rparr>],
      job_orders = [floor_order],
      devices = [], tasks = [], inspections = [], supervisor_reviews = [],
      tester_reviews = [], notifications = [],
      next_device_id = 1, next_task_id = 1, next_inspection_id = 1,
      next_supervisor_review_id = 1, next_tester_review_id = 1\<rparr>"

text \<open>
  The device of the order and its task A in the states of its life: available, started by
  technician 1, ended after 500 s with its pending inspection, and approved by the
  supervisor.
\<close>

definition floor_device :: device where
  "floor_device =
     \<lparr>dev_id = 1, dev_job_order = 1, serial_number = ''JO-001-0001'',
      current_status = ''pending''\<rparr>"

definition floor_task :: task where
  "floor_task =
     \<lparr>task_id = 1, task_process = Some 1, task_device = 1, task_job_order = 1,
      technician = None, operation_name = ''A'', standard_time_seconds = 600,
      task_type = ''technician'', start_time = None, end_time = None,
      actual_time_seconds = None, status = ''available'', task_notes = ''''\<rparr>"

definition task_started :: task where
  "task_started =
     floor_task\<lparr>technician := Some 1, start_time := Some 1000000, status := ''in_progress''\<rparr>"

definition task_ended :: task where
  "task_ended =
     task_started\<lparr>end_time := Some 501000000, actual_time_seconds := Some 500,
                   status := ''pending_qa''\<rparr>"

definition task_approved :: task where
  "task_approved = task_ended\<lparr>status := ''supervisor_approved''\<rparr>"

definition floor_inspection :: inspection where
  "floor_inspection =
     \<lparr>insp_id = 1, insp_device = 1, insp_task = 1, inspector = None,
      insp_decision = ''pending'', insp_comments = ''Awaiting quality inspection'',
      insp_created_at = 501000000\<rparr>"

definition floor_ready :: store where
  "floor_ready =
     floor_empty\<lparr>devices := [floor_device], tasks := [floor_task],
                  next_device_id := 2, next_task_id := 2\<rparr>"

definition floor_started :: store where
  "floor_started =
     floor_ready\<lparr>devices := [floor_device\<lparr>current_status := ''in_progress''\<rparr>],
                  tasks := [task_started]\<rparr>"

definition floor_pending_qa :: store where
  "floor_pending_qa =
     floor_ready\<lparr>devices := [floor_device\<lparr>current_status := ''completed''\<rparr>],
                  tasks := [task_ended],
                  inspections := [floor_inspection],
                  next_inspection_id := 2\<rparr>"

definition floor_approved :: store where
  "floor_approved =
     floor_pending_qa\<lparr>tasks := [task_approved],
                       inspections := [floor_inspection\<lparr>inspector := Some 2,
                                         insp_decision := ''accepted'',
                                         insp_comments := ''fine''\<rparr>],
                       supervisor_reviews := [\<lparr>sr_id = 1, sr_inspection = 1,
                                               supervisor = Some 4,
                                               sr_decision = ''accepted'',
                                               sr_comments = ''''\<rparr>],
                       tester_reviews := [\<lparr>tr_id = 1, tr_task = 1, tester = Some 3,
                                           tr_decision = ''accepted'', tr_comments = ''''\<rparr>],
                       next_supervisor_review_id := 2, next_tester_review_id := 2\<rparr>"




section \<open>Properties of the fan-out generator\<close>













lemma devices_to_create_nth:
  "i < nat (total_devices instance) \<Longrightarrow>
     devices_to_create instance ! i
       = Device instance (order_code instance @ ''-'' @ format_04d (i + 1))"
  by (simp add: devices_to_create_def)




text \<open>
  C10. A job order created without a job reference (\<open>job\<close> is null) gets no devices and
  no tasks: the handler leaves the store as it is and does not fail, exactly as it does
  for a job order whose job has no processes.
\<close>

theorem fan_out_without_job:
  "jo_job instance = None \<Longrightarrow>
     create_devices_and_tasks_for_job_order st instance created = st \<and>
     (\<forall>j. processes_of_job st j = [] \<longrightarrow>
        create_devices_and_tasks_for_job_order st (instance\<lparr>jo_job := Some j\<rparr>) created = st)"
  by (simp add: create_devices_and_tasks_for_job_order_def)

theorem fan_out_without_job_witness:
  "jo_job (floor_order\<lparr>jo_job := None\<rparr>) = None \<and>
   create_devices_and_tasks_for_job_order floor_empty (floor_order\<lparr>jo_job := None\<rparr>) True
     = floor_empty \<and>
   processes_of_job floor_empty 7 = [] \<and>
   create_devices_and_tasks_for_job_order floor_empty (floor_order\<lparr>jo_job := Some 7\<rparr>) True
     = floor_empty"
proof -
  have h: "jo_job (floor_order\<lparr>jo_job := None\<rparr>) = None" by simp
  have e: "processes_of_job floor_empty 7 = []"
    by (simp add: processes_of_job_def floor_empty_def)
  from fan_out_without_job[OF h, of floor_empty True] h e show ?thesis by simp
qed


section \<open>Properties of the derived figures\<close>








section \<open>Properties of the technician's transitions\<close>


lemma find_key_None:
  "\<forall>x \<in> set xs. \<not> P x \<Longrightarrow> find P xs = None"
  by (induction xs) simp_all

lemma find_SomeP: "find P xs = Some x \<Longrightarrow> P x \<and> x \<in> set xs"
  by (induction xs) (auto split: if_splits)

lemma map_filter_set:
  "y \<in> set (List.map_filter f xs) \<Longrightarrow> \<exists>x \<in> set xs. f x = Some y"
  by (induction xs) (auto simp: List.map_filter_simps split: option.splits)

lemma find_queryset:
  assumes sel: "\<And>x y. sel x = Some y \<Longrightarrow> fst y = x"
    and "distinct (map task_id ts)" and "t \<in> set ts"
  shows "find (\<lambda>row. task_id (fst row) = task_id t) (List.map_filter sel (filter rf ts))
           = (if rf t then sel t else None)"
  using assms(2,3)
proof (induction ts)
  case Nil
  then show ?case by simp
next
  case (Cons a ts)
  have none: "find (\<lambda>row. task_id (fst row) = task_id t) (List.map_filter sel (filter rf ts)) = None"
    if "task_id t \<notin> task_id ` set ts"
  proof (rule find_key_None, rule ballI, rule notI)
    fix row
    assume row: "row \<in> set (List.map_filter sel (filter rf ts))"
      and eq: "task_id (fst row) = task_id t"
    from map_filter_set[OF row] obtain x where "x \<in> set ts" "sel x = Some row"
      by auto
    with sel[of x row] have "fst row \<in> set ts" by simp
    with eq that show False by (metis imageI)
  qed
  show ?case
  proof (cases "a = t")
    case True
    with Cons.prems have notin: "task_id t \<notin> task_id ` set ts" by simp
    show ?thesis
    proof (cases "rf t")
      case False
      with True none[OF notin] show ?thesis by simp
    next
      case rf: True
      show ?thesis
      proof (cases "sel t")
        case None
        with True rf none[OF notin] show ?thesis by (simp add: List.map_filter_simps)
      next
        case (Some y)
        with sel[of t y] have "fst y = t" by simp
        with True rf Some show ?thesis by (simp add: List.map_filter_simps)
      qed
    qed
  next
    case False
    with Cons.prems have t: "t \<in> set ts" and neq: "task_id a \<noteq> task_id t" and d: "distinct (map task_id ts)"
      by (auto simp: image_iff)
    have step: "find (\<lambda>row. task_id (fst row) = task_id t) (List.map_filter sel (filter rf (a # ts)))
              = find (\<lambda>row. task_id (fst row) = task_id t) (List.map_filter sel (filter rf ts))"
    proof (cases "rf a")
      case True
      show ?thesis
      proof (cases "sel a")
        case None
        with True show ?thesis by (simp add: List.map_filter_simps)
      next
        case (Some y)
        with sel[of a y] have "fst y = a" by simp
        with True Some neq show ?thesis by (simp add: List.map_filter_simps)
      qed
    next
      case False
      then show ?thesis by simp
    qed
    show ?thesis unfolding step by (rule Cons.IH[OF d t])
  qed
qed

lemma select_related_fst: "select_related st x = Some y \<Longrightarrow> fst y = x"
  by (auto simp: select_related_def split: option.splits)

lemma get_object_of_task:
  assumes "distinct (map task_id (tasks st))" and "t \<in> set (tasks st)"
  shows "get_object st u (task_id t) = (if role_filter u t then select_related st t else None)"
  unfolding get_object_def get_queryset_def
  by (rule find_queryset[OF select_related_fst assms])

lemma check_permissions_cases:
  "check_permissions roles ru =
     (case ru of None \<Rightarrow> Inl NotAuthenticated
      | Some u \<Rightarrow> if has_permission roles ru then Inr u else Inl PermissionDenied)"
  by (simp add: check_permissions_def)

lemma task_technician_id:
  "task_technician st t = Some tech \<Longrightarrow> technician t = Some (user_id tech)"
  by (auto simp: task_technician_def get_user_def split: option.splits dest: find_SomeP)



lemma floor_started_facts:
  "distinct (map task_id (tasks floor_started))"
  "task_started \<in> set (tasks floor_started)"
  "task_id task_started = 1"
  "status task_started = ''in_progress''"
  "technician task_started = Some 1"
  "select_related floor_started task_started
     = Some (task_started, floor_device\<lparr>current_status := ''in_progress''\<rparr>, floor_order)"
  by (simp_all add: floor_started_def floor_ready_def floor_empty_def task_started_def
      floor_task_def floor_device_def floor_order_def select_related_def get_device_def
      get_job_order_def)



text \<open>
  C7. An end request on a task in progress by anyone but its assigned technician fails
  and changes nothing: the store, with the task, its device, the inspections and the
  notifications, stays as it is. Task rows have distinct primary keys.
\<close>

theorem end_by_other_actor:
  assumes "distinct (map task_id (tasks st))" and "t \<in> set (tasks st)"
    and "status t = ''in_progress''"
    and "\<forall>u. request_user = Some u \<longrightarrow> technician t \<noteq> Some (user_id u)"
  shows "end_task st request_user (task_id t) now =
           (Inl (case request_user of
                   None \<Rightarrow> NotAuthenticated
                 | Some u \<Rightarrow>
                     if \<not> has_permission IsTechnicianOrAll request_user then PermissionDenied
                     else if role_filter u t \<and> select_related st t \<noteq> None then
                       ErrorResponse 403 ''You are not the assigned technician for this task.''
                     else Http404),
            st)"
  using assms(3,4) select_related_fst[of st t]
  by (auto simp: end_task_def check_permissions_def get_object_of_task[OF assms(1,2)]
      split: option.splits dest: task_technician_id)

text \<open>
  Task A, started by technician 1: the planner, who sees every task, is told that he is
  not the assigned technician.
\<close>

theorem end_by_other_actor_witness:
  "distinct (map task_id (tasks floor_started)) \<and>
   task_started \<in> set (tasks floor_started) \<and>
   status task_started = ''in_progress'' \<and>
   technician task_started \<noteq> Some (user_id planner_one) \<and>
   end_task floor_started (Some planner_one) 1 2000000 =
     (Inl (ErrorResponse 403 ''You are not the assigned technician for this task.''),
      floor_started)"
proof -
  have h4: "\<forall>u. Some planner_one = Some u \<longrightarrow> technician task_started \<noteq> Some (user_id u)"
    by (simp add: floor_started_facts planner_one_def)
  have p: "has_permission IsTechnicianOrAll (Some planner_one)"
    by (simp add: has_permission_def IsTechnicianOrAll_def planner_one_def)
  have r: "role_filter planner_one task_started"
    by (simp add: role_filter_def planner_one_def)
  from end_by_other_actor[OF floor_started_facts(1,2,4) h4, of 2000000] h4
  show ?thesis
    by (simp add: floor_started_facts p r)
qed








lemma find_distinct_key:
  "distinct (map f xs) \<Longrightarrow> x \<in> set xs \<Longrightarrow> find (\<lambda>y. f y = f x) xs = Some x"
  by (induction xs) (auto simp: image_iff)


lemma get_task_of_row:
  "distinct (map task_id (tasks st)) \<Longrightarrow> t \<in> set (tasks st) \<Longrightarrow>
     get_task st (task_id t) = Some t"
  unfolding get_task_def by (rule find_distinct_key)
















section \<open>Properties of the review decisions\<close>

lemma update_task_fields:
  "tasks (update_task st pk f) = map (\<lambda>r. if task_id r = pk then f r else r) (tasks st)"
  "devices (update_task st pk f) = devices st"
  "users (update_task st pk f) = users st"
  "job_orders (update_task st pk f) = job_orders st"
  "inspections (update_task st pk f) = inspections st"
  "notifications (update_task st pk f) = notifications st"
  by (simp_all add: update_task_def)

lemma update_device_fields:
  "devices (update_device st pk f) = map (\<lambda>r. if dev_id r = pk then f r else r) (devices st)"
  "tasks (update_device st pk f) = tasks st"
  "users (update_device st pk f) = users st"
  "job_orders (update_device st pk f) = job_orders st"
  "inspections (update_device st pk f) = inspections st"
  "notifications (update_device st pk f) = notifications st"
  by (simp_all add: update_device_def)


lemma create_notification_fields:
  "tasks (create_notification st uid ntype msg payload) = tasks st"
  "devices (create_notification st uid ntype msg payload) = devices st"
  "users (create_notification st uid ntype msg payload) = users st"
  "inspections (create_notification st uid ntype msg payload) = inspections st"
  by (simp_all add: create_notification_def)




text \<open>
  C8. A quality decision \<open>rejected\<close> without comments changes nothing, whoever sends it:
  the store, with every task, device, inspection and notification, is returned as it
  was; sent by a user the permission check admits, it is answered with the validation
  error on \<open>comments\<close>.
\<close>

theorem qa_reject_without_comments:
  assumes "get_task st (data_id data) = Some t"
    and "data_decision data = ''rejected''" and "no_comments data"
  shows "snd (qa_decision st request_user data now) = st \<and>
         (has_permission IsQualityOrTesterOrAdmin request_user \<longrightarrow>
            fst (qa_decision st request_user data now) =
              Inl (ValidationError
                [(''comments'', ''Comments are mandatory when rejecting an inspection.'')]))"
  using assms
  by (auto simp: qa_decision_def check_permissions_def InspectionSerializer_is_valid_def
      InspectionSerializer_validate_def field_errors_def has_permission_def
      split: option.splits)

text \<open>
  The inspector rejects task A, which waits for him, without a word.
\<close>

theorem qa_reject_without_comments_witness:
  "get_task floor_pending_qa 1 = Some task_ended \<and>
   has_permission IsQualityOrTesterOrAdmin (Some inspector_one) \<and>
   qa_decision floor_pending_qa (Some inspector_one)
     \<lparr>data_id = 1, data_decision = ''rejected'', data_comments = Some ''''\<rparr> 502000000
   = (Inl (ValidationError
        [(''comments'', ''Comments are mandatory when rejecting an inspection.'')]),
      floor_pending_qa)"
proof -
  let ?d = "\<lparr>data_id = 1, data_decision = ''rejected'', data_comments = Some ''''\<rparr>"
  have h1: "get_task floor_pending_qa (data_id ?d) = Some task_ended"
    by (simp add: get_task_def floor_pending_qa_def floor_ready_def task_ended_def
        task_started_def floor_task_def)
  have h2: "data_decision ?d = ''rejected''" by simp
  have h3: "no_comments ?d" by (simp add: no_comments_def)
  have p: "has_permission IsQualityOrTesterOrAdmin (Some inspector_one)"
    by (simp add: has_permission_def IsQualityOrTesterOrAdmin_def inspector_one_def)
  from qa_reject_without_comments[OF h1 h2 h3, of "Some inspector_one" 502000000] p h1
  show ?thesis by (simp add: prod_eq_iff)
qed






text \<open>
  What a supervisor's rejection does to the task of the reviewed inspection, whatever
  the status of that task.
\<close>

lemma supervisor_reject_tasks:
  assumes "has_permission IsSupervisorOrAdmin (Some u)"
    and "get_inspection st (data_id data) = Some insp"
    and "get_task st (insp_task insp) = Some t"
    and "select_related st t = Some (t, dev, jo)"
    and "data_decision data = ''rejected''"
  shows "tasks (snd (supervisor_decision st (Some u) data))
           = map (\<lambda>r. if task_id r = task_id t then r\<lparr>status := ''rejected''\<rparr> else r)
               (tasks st)"
  using assms
  by (simp add: supervisor_decision_def check_permissions_def
      SupervisorReviewSerializer_is_valid_def field_errors_def
      SupervisorReview_perform_create_def create_supervisor_review_def Let_def split_beta
      update_task_fields update_device_fields create_notification_fields
      split: option.splits)

text \<open>
  The other four transitions do leave an approved task alone.
\<close>

lemma approved_blocks_other_transitions:
  assumes "distinct (map task_id (tasks st))" and "t \<in> set (tasks st)"
    and "status t = ''supervisor_approved''"
  shows "snd (start st request_user (task_id t) now) = st"
    and "snd (end_task st request_user (task_id t) now) = st"
    and "data_id data = task_id t \<Longrightarrow> snd (qa_decision st request_user data now) = st"
    and "data_id data = task_id t \<Longrightarrow> snd (tester_decision st request_user data) = st"
proof -
  have gt: "get_task st (task_id t) = Some t"
    by (rule get_task_of_row[OF assms(1,2)])
  show "snd (start st request_user (task_id t) now) = st"
    using assms(3) select_related_fst[of st t]
    by (auto simp: start_def check_permissions_def get_object_of_task[OF assms(1,2)]
        split: option.splits)
  show "snd (end_task st request_user (task_id t) now) = st"
    using assms(3) select_related_fst[of st t]
    by (auto simp: end_task_def check_permissions_def get_object_of_task[OF assms(1,2)]
        split: option.splits)
  show "snd (qa_decision st request_user data now) = st" if "data_id data = task_id t"
    using that assms(3) gt
    by (auto simp: qa_decision_def check_permissions_def InspectionSerializer_is_valid_def
        InspectionSerializer_validate_def Let_def split: option.splits)
  show "snd (tester_decision st request_user data) = st" if "data_id data = task_id t"
    using that assms(3) gt
    by (auto simp: tester_decision_def check_permissions_def
        TesterReviewSerializer_is_valid_def TesterReviewSerializer_validate_def Let_def
        split: option.splits)
qed

text \<open>
  C5 fails on the code. \<open>supervisor_approved\<close> is meant to be final, and start, end,
  quality decision and tester decision refuse such a task; but the supervisor review
  checks no status, so a second review of the inspection of an approved task, with the
  decision \<open>rejected\<close>, makes the task \<open>rejected\<close>.
\<close>

theorem approved_task_rejected_by_supervisor:
  "get_task floor_approved 1 = Some task_approved \<and>
   status task_approved = ''supervisor_approved'' \<and>
   get_task (snd (supervisor_decision floor_approved (Some supervisor_one)
                    \<lparr>data_id = 1, data_decision = ''rejected'', data_comments = None\<rparr>)) 1
     = Some (task_approved\<lparr>status := ''rejected''\<rparr>)"
proof -
  let ?d = "\<lparr>data_id = 1, data_decision = ''rejected'', data_comments = None\<rparr>"
  let ?i = "floor_inspection\<lparr>inspector := Some 2, insp_decision := ''accepted'',
                             insp_comments := ''fine''\<rparr>"
  have p: "has_permission IsSupervisorOrAdmin (Some supervisor_one)"
    by (simp add: has_permission_def IsSupervisorOrAdmin_def supervisor_one_def)
  have ts: "tasks floor_approved = [task_approved]"
    by (simp add: floor_approved_def floor_pending_qa_def floor_ready_def)
  have id: "task_id task_approved = 1"
    by (simp add: task_approved_def task_ended_def task_started_def floor_task_def)
  have gi: "get_inspection floor_approved (data_id ?d) = Some ?i"
    by (simp add: get_inspection_def floor_approved_def floor_pending_qa_def floor_ready_def
        floor_inspection_def)
  have gt0: "get_task floor_approved 1 = Some task_approved"
    by (simp add: get_task_def ts id)
  have gt: "get_task floor_approved (insp_task ?i) = Some task_approved"
    by (simp add: get_task_def ts id floor_inspection_def)
  have sel: "select_related floor_approved task_approved
               = Some (task_approved, floor_device\<lparr>current_status := ''completed''\<rparr>,
                       floor_order)"
    by (simp add: select_related_def get_device_def get_job_order_def floor_approved_def
        floor_pending_qa_def floor_ready_def floor_empty_def task_approved_def task_ended_def
        task_started_def floor_task_def floor_device_def floor_order_def)
  have st: "status task_approved = ''supervisor_approved''"
    by (simp add: task_approved_def)
  have "tasks (snd (supervisor_decision floor_approved (Some supervisor_one) ?d))
          = [task_approved\<lparr>status := ''rejected''\<rparr>]"
    using supervisor_reject_tasks[OF p gi gt sel] by (simp add: ts)
  then have "get_task (snd (supervisor_decision floor_approved (Some supervisor_one) ?d)) 1
               = Some (task_approved\<lparr>status := ''rejected''\<rparr>)"
    by (simp add: get_task_def id)
  with gt0 st show ?thesis by (intro conjI)
qed

end
